theory Spec2Isabelle
  imports Main "HOL-Library.Word"
begin

section \<open>JavaScript values used by server/index.ts\<close>

text \<open>
  A JavaScript string is a sequence of UTF-16 code units; \<open>length\<close>, \<open>slice\<close> and
  \<open>startsWith\<close> count code units. String literals of the source are ASCII, except the
  ellipsis U+2026, which is one code unit.
\<close>

type_synonym jsstring = "16 word list"

definition ascii :: "string \<Rightarrow> jsstring" where
  "ascii s = map (\<lambda>c. of_nat (of_char c)) s"

definition ellipsis :: "16 word" where
  "ellipsis = 0x2026"

definition startsWith :: "jsstring \<Rightarrow> jsstring \<Rightarrow> bool" where
  \<comment> \<open>\<open>s.startsWith(p)\<close>\<close>
  "startsWith s p = (take (length p) s = p)"

text \<open>
  Template literals render an integer Number in decimal, with a leading minus sign when it
  is negative (status codes and millisecond differences are integers far below the range
  where JavaScript switches to exponent notation).
\<close>

function show_nat :: "nat \<Rightarrow> jsstring" where
  "show_nat n =
     (if n < 10 then [of_nat (48 + n)]
      else show_nat (n div 10) @ [of_nat (48 + n mod 10)])"
  by pat_completeness auto
termination
  by (relation "measure id") auto

declare show_nat.simps [simp del]

definition show_int :: "int \<Rightarrow> jsstring" where
  "show_int i = (if i < 0 then ascii ''-'' @ show_nat (nat (- i)) else show_nat (nat i))"

text \<open>
  The values the code tests for truthiness (\<open>a || b\<close>, \<open>!a\<close>, \<open>if (a)\<close>):
  \<open>undefined\<close>, \<open>null\<close>, \<open>false\<close>, \<open>0\<close> and the empty string are falsy, every
  object and array is truthy. Numbers are restricted to integers.
\<close>

datatype jsvalue =
    JUndefined
  | JNull
  | JBool bool
  | JNum int
  | JStr jsstring
  | JArray "jsvalue list"
  | JObject "(jsstring \<times> jsvalue) list"

fun truthy :: "jsvalue \<Rightarrow> bool" where
  "truthy JUndefined = False"
| "truthy JNull = False"
| "truthy (JBool b) = b"
| "truthy (JNum n) = (n \<noteq> 0)"
| "truthy (JStr s) = (s \<noteq> [])"
| "truthy (JArray _) = True"
| "truthy (JObject _) = True"

definition js_or :: "jsvalue \<Rightarrow> jsvalue \<Rightarrow> jsvalue" where
  \<comment> \<open>\<open>a || b\<close>\<close>
  "js_or a b = (if truthy a then a else b)"

text \<open>
  \<open>process.env\<close> maps variable names to strings; reading a variable that is not set
  gives \<open>undefined\<close>.
\<close>

type_synonym environ = "string \<rightharpoonup> jsstring"

definition getenv :: "environ \<Rightarrow> string \<Rightarrow> jsvalue" where
  "getenv env k = (case env k of None \<Rightarrow> JUndefined | Some v \<Rightarrow> JStr v)"

section \<open>Request logger (index.ts, lines 38 to 66)\<close>

text \<open>
  The middleware keeps, per request, the start time, the path read at entry and the
  variable \<open>capturedJsonResponse\<close>; the method is read from the request when the
  response finishes.
\<close>

record exchange =
  req_method :: jsstring
  req_path :: jsstring
  start :: int
  capturedJsonResponse :: jsvalue

definition logger_enter :: "jsstring \<Rightarrow> jsstring \<Rightarrow> int \<Rightarrow> exchange" where
  \<comment> \<open>the middleware body up to \<open>next()\<close>, at time \<open>now = Date.now()\<close>\<close>
  "logger_enter m p now =
     \<lparr>req_method = m, req_path = p, start = now, capturedJsonResponse = JUndefined\<rparr>"

definition res_json :: "exchange \<Rightarrow> jsvalue \<Rightarrow> exchange" where
  \<comment> \<open>the replacement of \<open>res.json\<close>: stores the body, then calls the original\<close>
  "res_json x bodyJson = x\<lparr>capturedJsonResponse := bodyJson\<rparr>"

definition base_line :: "jsstring \<Rightarrow> jsstring \<Rightarrow> int \<Rightarrow> int \<Rightarrow> jsstring" where
  \<comment> \<open>line 52: \<open>METHOD PATH STATUS in Nms\<close>\<close>
  "base_line m p statusCode duration =
     m @ ascii '' '' @ p @ ascii '' '' @ show_int statusCode @ ascii '' in ''
       @ show_int duration @ ascii ''ms''"

definition truncate_line :: "jsstring \<Rightarrow> jsstring" where
  \<comment> \<open>lines 57 to 59\<close>
  "truncate_line logLine =
     (if length logLine > 80 then take 79 logLine @ [ellipsis] else logLine)"

text \<open>
  The handler of the response's \<open>finish\<close> event. It returns the lines handed to \<open>log\<close>.
  \<open>JSON.stringify\<close> belongs to the runtime and is a parameter.
\<close>

definition on_finish ::
  "(jsvalue \<Rightarrow> jsstring) \<Rightarrow> exchange \<Rightarrow> int \<Rightarrow> int \<Rightarrow> jsstring list" where
  "on_finish stringify x statusCode now =
     (let duration = now - start x in
      if startsWith (req_path x) (ascii ''/api'') then
        let logLine = base_line (req_method x) (req_path x) statusCode duration;
            logLine = (if truthy (capturedJsonResponse x)
                       then logLine @ ascii '' :: '' @ stringify (capturedJsonResponse x)
                       else logLine);
            logLine = truncate_line logLine
        in [logLine]
      else [])"

section \<open>Mode selection and the production middleware (lines 13 to 33, 89 to 94)\<close>

definition isProduction :: "environ \<Rightarrow> bool" where
  "isProduction env =
     (getenv env ''NODE_ENV'' = JStr (ascii ''production'')
      \<or> getenv env ''PORT'' = JStr (ascii ''5000'')
      \<or> getenv env ''PORT'' = JStr (ascii ''8080'')
      \<or> \<not> truthy (getenv env ''REPL_ID''))"

definition production_middleware :: "environ \<Rightarrow> bool" where
  \<comment> \<open>line 13: the guard around helmet, compression and the rate limiter\<close>
  "production_middleware env = (getenv env ''NODE_ENV'' = JStr (ascii ''production''))"

text \<open>
  Modelled from the spec: \<open>app.get("env")\<close>, the spec's secondary environment marker,
  is Express's setting, not under src/. Express sets it when the application is created,
  to \<open>process.env.NODE_ENV || "development"\<close>.
\<close>

definition express_env :: "environ \<Rightarrow> jsstring" where
  "express_env env =
     (case js_or (getenv env ''NODE_ENV'') (JStr (ascii ''development'')) of
        JStr v \<Rightarrow> v
      | _ \<Rightarrow> ascii ''development'')"

text \<open>
  \<open>app.use("/api", limiter)\<close>: Express runs a middleware mounted at a path for the path
  itself and for every path below it, comparing without regard to letter case.
\<close>

definition lower :: "16 word \<Rightarrow> 16 word" where
  "lower c = (if 0x41 \<le> c \<and> c \<le> 0x5A then c + 0x20 else c)"

definition mounted_at :: "jsstring \<Rightarrow> jsstring \<Rightarrow> bool" where
  "mounted_at prefix p =
     (let q = map lower p in q = prefix \<or> startsWith q (prefix @ ascii ''/''))"

record limiter_options =
  windowMs :: int
  max_hits :: nat
  limit_message :: jsstring

definition limiter :: limiter_options where
  \<comment> \<open>lines 27 to 31; \<open>max\<close> of the source is \<open>max_hits\<close>\<close>
  "limiter =
     \<lparr>windowMs = 15 * 60 * 1000,
      max_hits = 100,
      limit_message = ascii ''Too many requests from this IP, please try again later.''\<rparr>"

text \<open>
  Modelled from the spec: \<open>rateLimit\<close> is the express-rate-limit package, not under src/.
  The spec gives a fixed window per originating client: the first request of a client opens
  a window of \<open>windowMs\<close> milliseconds, every request inside it is counted, a request
  whose count exceeds the maximum is rejected with the message and is not passed on, and
  the counter starts again once the window has expired.
\<close>

datatype verdict = Pass | Rejected jsstring

type_synonym hits = "jsstring \<rightharpoonup> nat \<times> int"

definition rateLimit :: "limiter_options \<Rightarrow> hits \<Rightarrow> int \<Rightarrow> jsstring \<Rightarrow> hits \<times> verdict" where
  "rateLimit opts store now ip =
     (let (totalHits, resetTime) =
            (case store ip of
               None \<Rightarrow> (1, now + windowMs opts)
             | Some (n, r) \<Rightarrow> if now < r then (n + 1, r) else (1, now + windowMs opts))
      in (store(ip \<mapsto> (totalHits, resetTime)),
          if totalHits > max_hits opts then Rejected (limit_message opts) else Pass))"

record request =
  ip :: jsstring
  url_path :: jsstring
  arrival :: int

definition limit_stage :: "environ \<Rightarrow> hits \<Rightarrow> request \<Rightarrow> hits \<times> verdict" where
  \<comment> \<open>the rate limiting stage as index.ts installs it: lines 13 and 32\<close>
  "limit_stage env store r =
     (if production_middleware env \<and> mounted_at (ascii ''/api'') (url_path r)
      then rateLimit limiter store (arrival r) (ip r)
      else (store, Pass))"

fun serve_all :: "environ \<Rightarrow> hits \<Rightarrow> request list \<Rightarrow> verdict list" where
  "serve_all env store [] = []"
| "serve_all env store (r # rs) =
     (case limit_stage env store r of (store', v) \<Rightarrow> v # serve_all env store' rs)"

section \<open>The way of a request to the logger (lines 13 to 66)\<close>

text \<open>
  The middlewares run in the order of their registration: the rate limiting stage (line
  32), the body parsers (lines 35 and 36), then the request logger (line 38). A request
  the limiter rejects is answered there; a request whose body the parsers refuse
  (malformed JSON, more than 10 MB) goes to the error handlers; neither enters the
  logger. A request that enters the logger is logged when its response emits \<open>finish\<close>,
  which a response cut off by the client never does.
\<close>

record visit =
  req :: request
  http_method :: jsstring
  body_accepted :: bool
  entered :: int
  json_calls :: "jsvalue list"
  finish :: "(int \<times> int) option"

definition logged_lines ::
  "(jsvalue \<Rightarrow> jsstring) \<Rightarrow> environ \<Rightarrow> hits \<Rightarrow> visit \<Rightarrow> hits \<times> jsstring list" where
  \<comment> \<open>\<open>entered\<close> is \<open>Date.now()\<close> in the logger; \<open>finish\<close> gives \<open>res.statusCode\<close> and
      \<open>Date.now()\<close> at the \<open>finish\<close> event, or nothing when the response never finishes\<close>
  "logged_lines stringify env store v =
     (case limit_stage env store (req v) of
        (store', Rejected _) \<Rightarrow> (store', [])
      | (store', Pass) \<Rightarrow>
          (store',
           if \<not> body_accepted v then []
           else (case finish v of
                   None \<Rightarrow> []
                 | Some (code, now) \<Rightarrow>
                     on_finish stringify
                       (foldl res_json
                          (logger_enter (http_method v) (url_path (req v)) (entered v))
                          (json_calls v))
                       code now)))"

section \<open>Terminal error middleware (lines 78 to 84)\<close>

record js_error =
  status :: jsvalue
  statusCode :: jsvalue
  message :: jsvalue


text \<open>
  Line 82, \<open>res.status(status).json({ message })\<close>, writes the response only when the
  runtime lets it. When the route handler had already started the response
  (\<open>res.headersSent\<close>), setting the headers throws. When the status is one the runtime
  refuses, the call throws as well: Express and Node refuse a status code that is not, as
  a 32-bit integer, between 100 and 999. In both cases nothing is sent, line 83 is not
  reached, and the handler ends with the runtime's error instead of the error it was
  given. The test of the status belongs to the runtime and is the parameter \<open>accepts\<close>;
  \<open>http_status\<close> is that test on the integers. The values of \<open>jsvalue\<close> are finite
  trees, which \<open>JSON.stringify\<close> always serialises.
\<close>

datatype runtime_error = HeadersSent | InvalidStatus jsvalue

datatype completion = Normal | Throw js_error | ThrowRuntime runtime_error



section \<open>Startup, content delivery and shutdown (lines 68 to 196)\<close>

text \<open>
  What the process has written, which content delivery it has installed, the state of the
  server socket, the callbacks waiting for the server's \<open>close\<close> event, the deadlines of
  the armed timers, whether the handlers of SIGTERM and SIGINT have been registered
  (lines 195 and 196), and the exit status once the process has ended.
\<close>

datatype console_line = Log jsstring | ConsoleError js_error | ViteLoggerError jsstring

datatype adapter = ViteDev | StaticFiles

record proc =
  console :: "console_line list"
  adapter :: "adapter option"
  listen_port :: "jsstring option"
  accepting :: bool
  close_callbacks :: nat
  timers :: "int list"
  handlers_installed :: bool
  exit_status :: "int option"

text \<open>
  What the collaborators do during one start: whether \<open>initializeDatabase\<close> rejects, the
  value of \<open>app.get("env")\<close>, whether the dynamic imports and \<open>vite.createServer\<close> in the
  \<open>try\<close> block throw, and how the runtime renders \<open>parseInt\<close> of the port text.
\<close>

datatype setup_outcome = SetupOk | SetupThrows js_error

record world =
  db_init_error :: "js_error option"
  app_env :: jsstring
  vite_setup :: setup_outcome
  port_text :: "jsstring \<Rightarrow> jsstring"

definition log :: "jsstring \<Rightarrow> proc \<Rightarrow> proc" where
  "log m p = p\<lparr>console := console p @ [Log m]\<rparr>"

definition console_error :: "js_error \<Rightarrow> proc \<Rightarrow> proc" where
  "console_error e p = p\<lparr>console := console p @ [ConsoleError e]\<rparr>"

definition process_exit :: "int \<Rightarrow> proc \<Rightarrow> proc" where
  "process_exit c p = p\<lparr>exit_status := Some c\<rparr>"

text \<open>
  Modelled from the spec: \<open>serveStatic\<close> is exported by ./vite, not under src/. The spec's
  production implementation serves the prebuilt assets and the application shell.
\<close>

definition serveStatic :: "proc \<Rightarrow> proc" where
  "serveStatic p = p\<lparr>adapter := Some StaticFiles\<rparr>"

definition initial :: proc where
  "initial =
     \<lparr>console = [], adapter = None, listen_port = None, accepting = False,
      close_callbacks = 0, timers = [], handlers_installed = False, exit_status = None\<rparr>"

definition content_delivery :: "environ \<Rightarrow> world \<Rightarrow> proc \<Rightarrow> proc" where
  \<comment> \<open>lines 89 to 166\<close>
  "content_delivery env w p =
     (if \<not> isProduction env \<and> app_env w = ascii ''development'' then
        (let p = log (ascii ''Development mode detected, attempting to setup Vite'') p in
         case vite_setup w of
           SetupOk \<Rightarrow>
             log (ascii ''Vite development server setup complete'')
               (p\<lparr>adapter := Some ViteDev\<rparr>)
         | SetupThrows error \<Rightarrow>
             serveStatic
               (console_error error
                  (log (ascii ''Failed to setup Vite development server, serving static files'') p)))
      else
        serveStatic (log (ascii ''Production mode detected, serving static files'') p))"

definition port_source :: "environ \<Rightarrow> jsstring" where
  \<comment> \<open>line 171: the argument of \<open>parseInt\<close>, \<open>process.env.PORT || "5000"\<close>\<close>
  "port_source env =
     (case js_or (getenv env ''PORT'') (JStr (ascii ''5000'')) of
        JStr v \<Rightarrow> v
      | _ \<Rightarrow> ascii ''5000'')"

definition startup :: "environ \<Rightarrow> world \<Rightarrow> proc" where
  \<comment> \<open>the asynchronous main function: it awaits the database, the routes and the
      pipeline, then calls \<open>server.listen\<close> and registers the signal handlers\<close>
  "startup env w =
     (let p = (case db_init_error w of
                 Some _ \<Rightarrow> log (ascii ''Database initialization failed, continuing anyway'') initial
               | None \<Rightarrow> initial);
          p = content_delivery env w p
      in p\<lparr>listen_port := Some (port_text w (port_source env)),
           handlers_installed := True\<rparr>)"

text \<open>
  After the start the process reacts to events, each taken at a time in milliseconds: the
  socket is bound (the callback of \<open>listen\<close>), SIGTERM or SIGINT arrives, the server emits
  \<open>close\<close> (no connection is left after \<open>server.close\<close>), the transform pipeline calls
  the \<open>error\<close> function of its logger, or nothing but time passes. A timer runs at the
  first turn at or after its deadline, before the event of that turn. A signal that arrives
  before its handler is registered has the runtime's default effect: the process ends at
  once with status 128 plus the signal's number, and nothing of \<open>gracefulShutdown\<close> runs.
\<close>

datatype signal = SIGTERM | SIGINT

fun signal_name :: "signal \<Rightarrow> jsstring" where
  "signal_name SIGTERM = ascii ''SIGTERM''"
| "signal_name SIGINT = ascii ''SIGINT''"

fun signal_number :: "signal \<Rightarrow> int" where
  "signal_number SIGTERM = 15"
| "signal_number SIGINT = 2"

datatype event = Bound | Signal signal | ServerClosed | ViteError jsstring | Tick

definition gracefulShutdown :: "jsstring \<Rightarrow> int \<Rightarrow> proc \<Rightarrow> proc" where
  \<comment> \<open>lines 181 to 193: log, \<open>server_instance.close(callback)\<close>, \<open>setTimeout(..., 10000)\<close>\<close>
  "gracefulShutdown sig now p =
     (let p = log (ascii ''Received '' @ sig @ ascii '', shutting down gracefully...'') p;
          p = p\<lparr>accepting := False, close_callbacks := Suc (close_callbacks p)\<rparr>
      in p\<lparr>timers := timers p @ [now + 10000]\<rparr>)"

definition forced_shutdown :: "proc \<Rightarrow> proc" where
  \<comment> \<open>the timer's callback, lines 190 and 191\<close>
  "forced_shutdown p = process_exit 1 (log (ascii ''Forcing shutdown after timeout'') p)"

definition server_closed :: "proc \<Rightarrow> proc" where
  \<comment> \<open>the callback given to \<open>close\<close>, lines 184 and 185\<close>
  "server_closed p = process_exit 0 (log (ascii ''HTTP server closed.'') p)"

definition customLogger_error :: "jsstring \<Rightarrow> proc \<Rightarrow> proc" where
  \<comment> \<open>lines 115 to 118: \<open>viteLogger.error(msg, options); process.exit(1)\<close>\<close>
  "customLogger_error msg p = process_exit 1 (p\<lparr>console := console p @ [ViteLoggerError msg]\<rparr>)"

fun handle :: "proc \<Rightarrow> int \<Rightarrow> event \<Rightarrow> proc" where
  "handle p now Bound =
     (case listen_port p of
        Some port \<Rightarrow> log (ascii ''serving on port '' @ port) (p\<lparr>accepting := True\<rparr>)
      | None \<Rightarrow> p)"
| "handle p now (Signal s) =
     (if handlers_installed p then gracefulShutdown (signal_name s) now p
      else process_exit (128 + signal_number s) p)"
| "handle p now ServerClosed = (if 0 < close_callbacks p then server_closed p else p)"
| "handle p now (ViteError msg) =
     (if adapter p = Some ViteDev then customLogger_error msg p else p)"
| "handle p now Tick = p"

definition timer_due :: "proc \<Rightarrow> int \<Rightarrow> bool" where
  "timer_due p now = list_ex (\<lambda>deadline. deadline \<le> now) (timers p)"

definition step :: "proc \<Rightarrow> int \<times> event \<Rightarrow> proc" where
  "step p te =
     (if exit_status p \<noteq> None then p
      else if timer_due p (fst te) then forced_shutdown p
      else handle p (fst te) (snd te))"

fun run :: "proc \<Rightarrow> (int \<times> event) list \<Rightarrow> proc" where
  "run p [] = p"
| "run p (te # tes) = run (step p te) tes"

text \<open>The lifecycle state of the spec, read off the process.\<close>

datatype lifecycle = Starting | Listening | ShuttingDown | Stopped

definition lifecycle_of :: "proc \<Rightarrow> lifecycle" where
  "lifecycle_of p =
     (if exit_status p \<noteq> None then Stopped
      else if 0 < close_callbacks p \<or> timers p \<noteq> [] then ShuttingDown
      else if accepting p then Listening
      else Starting)"

text \<open>
  The catch-all route of the development pipeline (lines 140 to 155): the page is
  rendered and sent, or the error thrown while rendering is given to
  \<open>ssrFixStacktrace\<close> and then to \<open>next\<close>.
\<close>

datatype render_outcome = Rendered jsstring | RenderThrows js_error

datatype action = Respond int jsstring | SsrFixStacktrace js_error | NextError js_error

definition catch_all :: "render_outcome \<Rightarrow> action list" where
  "catch_all r =
     (case r of
        Rendered page \<Rightarrow> [Respond 200 page]
      | RenderThrows e \<Rightarrow> [SsrFixStacktrace e, NextError e])"

text \<open>
  Two notions used to state the shutdown properties. An event is benign when it is
  neither the server's \<open>close\<close> event nor an error of the transform pipeline. A process
  is draining since \<open>t0\<close> when it has not exited, the signal handlers and a close
  callback are registered, the timer of the signal taken at \<open>t0\<close> is armed and no timer
  has an earlier deadline.
\<close>

fun benign :: "event \<Rightarrow> bool" where
  "benign ServerClosed = False"
| "benign (ViteError _) = False"
| "benign _ = True"

definition draining :: "int \<Rightarrow> proc \<Rightarrow> bool" where
  "draining t0 p =
     (exit_status p = None \<and> handlers_installed p \<and> 0 < close_callbacks p
      \<and> t0 + 10000 \<in> set (timers p) \<and> list_all (\<lambda>d. t0 + 10000 \<le> d) (timers p))"

section \<open>Properties of the request logger\<close>

lemma length_truncate_line: "length (truncate_line l) \<le> 80"
  by (simp add: truncate_line_def)

lemma length_truncate_line_81: "length (truncate_line l) \<le> 81"
  using length_truncate_line [of l] by simp

text \<open>
  C4: every line the request logger emits is the built line
  (\<open>METHOD PATH STATUS in Nms\<close>, with the summary when one was captured) after the
  truncation: when the built line is longer than 80 code units the emitted line is its
  first 79 code units followed by one ellipsis in place of the remainder, otherwise it is
  the built line itself. So no emitted line exceeds 80 code units, hence none exceeds 81.
\<close>

theorem logLine_bounded:
  "on_finish stringify x code now =
     (if startsWith (req_path x) (ascii ''/api'') then
        [let full = base_line (req_method x) (req_path x) code (now - start x)
               @ (if truthy (capturedJsonResponse x)
                  then ascii '' :: '' @ stringify (capturedJsonResponse x) else [])
         in if 80 < length full then take 79 full @ [ellipsis] else full]
      else [])
   \<and> list_all (\<lambda>l. length l \<le> 80 \<and> length l \<le> 81) (on_finish stringify x code now)"
proof -
  have "on_finish stringify x code now =
     (if startsWith (req_path x) (ascii ''/api'') then
        [let full = base_line (req_method x) (req_path x) code (now - start x)
               @ (if truthy (capturedJsonResponse x)
                  then ascii '' :: '' @ stringify (capturedJsonResponse x) else [])
         in if 80 < length full then take 79 full @ [ellipsis] else full]
      else [])"
    by (simp add: on_finish_def Let_def truncate_line_def)
  moreover
  have "list_all (\<lambda>l. length l \<le> 80 \<and> length l \<le> 81) (on_finish stringify x code now)"
    by (simp add: on_finish_def Let_def length_truncate_line length_truncate_line_81)
  ultimately show ?thesis by blast
qed

theorem logLine_bounded_witness:
  "on_finish (\<lambda>_. ascii ''{}'')
     \<lparr>req_method = ascii ''GET'', req_path = ascii ''/api/'' @ replicate 90 0x61,
      start = 1000, capturedJsonResponse = JObject []\<rparr> 200 1005
     = [ascii ''GET /api/'' @ replicate 70 0x61 @ [ellipsis]]
   \<and> length (ascii ''GET /api/'' @ replicate 70 (0x61 :: 16 word) @ [ellipsis]) = 80
   \<and> on_finish (\<lambda>_. ascii ''{}'')
     \<lparr>req_method = ascii ''GET'', req_path = ascii ''/api/health'',
      start = 1000, capturedJsonResponse = JObject []\<rparr> 200 1005
     = [ascii ''GET /api/health 200 in 5ms :: {}'']"
  using logLine_bounded [of "\<lambda>_. ascii ''{}''"
      "\<lparr>req_method = ascii ''GET'', req_path = ascii ''/api/'' @ replicate 90 0x61,
        start = 1000, capturedJsonResponse = JObject []\<rparr>" 200 1005]
    logLine_bounded [of "\<lambda>_. ascii ''{}''"
      "\<lparr>req_method = ascii ''GET'', req_path = ascii ''/api/health'',
        start = 1000, capturedJsonResponse = JObject []\<rparr>" 200 1005]
  by (simp add: base_line_def startsWith_def show_int_def show_nat.simps ascii_def)

lemma captured_after_calls:
  "capturedJsonResponse (foldl res_json x bodies) =
     (if bodies = [] then capturedJsonResponse x else last bodies)"
  by (induction bodies arbitrary: x) (simp_all add: res_json_def)

lemma fields_after_calls:
  "req_method (foldl res_json x bodies) = req_method x
   \<and> req_path (foldl res_json x bodies) = req_path x
   \<and> start (foldl res_json x bodies) = start x"
  by (induction bodies arbitrary: x) (simp_all add: res_json_def)

lemma on_finish_after_calls:
  "on_finish stringify (foldl res_json (logger_enter m p t0) bodies) code t1 =
     (if startsWith p (ascii ''/api'') then
        [truncate_line
           (base_line m p code (t1 - t0)
            @ (if bodies \<noteq> [] \<and> truthy (last bodies)
               then ascii '' :: '' @ stringify (last bodies) else []))]
      else [])"
  by (simp add: on_finish_def Let_def captured_after_calls fields_after_calls logger_enter_def)

text \<open>
  C5, as the code has it: a request that passes the rate limiting stage, whose body the
  parsers accept and whose response finishes (with status \<open>code\<close>, at time \<open>now\<close>)
  gives exactly one line when its path starts with /api, namely
  \<open>METHOD PATH STATUS in Nms\<close>, followed by \<open> :: \<close> and the summary only when a body
  was captured (and is truthy), after the truncation of C4; it gives no line when its path
  does not start with /api. A request that the limiter rejects, or whose body is refused,
  or whose response never finishes, gives no line whatever its path.
\<close>

theorem request_logger_lines:
  "(snd (limit_stage env store (req v)) = Pass \<longrightarrow> body_accepted v
      \<longrightarrow> finish v = Some (code, now)
      \<longrightarrow> snd (logged_lines stringify env store v) =
           (if startsWith (url_path (req v)) (ascii ''/api'') then
              [truncate_line
                 (base_line (http_method v) (url_path (req v)) code (now - entered v)
                  @ (if json_calls v \<noteq> [] \<and> truthy (last (json_calls v))
                     then ascii '' :: '' @ stringify (last (json_calls v)) else []))]
            else []))
   \<and> (snd (limit_stage env store (req v)) \<noteq> Pass \<or> \<not> body_accepted v \<or> finish v = None
      \<longrightarrow> snd (logged_lines stringify env store v) = [])"
proof -
  have "snd (limit_stage env store (req v)) = Pass \<longrightarrow> body_accepted v
      \<longrightarrow> finish v = Some (code, now)
      \<longrightarrow> snd (logged_lines stringify env store v) =
           (if startsWith (url_path (req v)) (ascii ''/api'') then
              [truncate_line
                 (base_line (http_method v) (url_path (req v)) code (now - entered v)
                  @ (if json_calls v \<noteq> [] \<and> truthy (last (json_calls v))
                     then ascii '' :: '' @ stringify (last (json_calls v)) else []))]
            else [])"
    by (cases "limit_stage env store (req v)")
      (simp add: logged_lines_def on_finish_after_calls)
  moreover
  have "snd (limit_stage env store (req v)) \<noteq> Pass \<or> \<not> body_accepted v \<or> finish v = None
      \<longrightarrow> snd (logged_lines stringify env store v) = []"
    by (cases "limit_stage env store (req v)")
      (auto simp: logged_lines_def split: verdict.splits)
  ultimately show ?thesis by blast
qed

theorem request_logger_lines_witness:
  "snd (logged_lines (\<lambda>_. ascii ''{}'') Map.empty Map.empty
     \<lparr>req = \<lparr>ip = ascii ''10.0.0.7'', url_path = ascii ''/api/health'', arrival = 1000\<rparr>,
      http_method = ascii ''GET'', body_accepted = True, entered = 1000,
      json_calls = [JObject []], finish = Some (200, 1005)\<rparr>)
     = [ascii ''GET /api/health 200 in 5ms :: {}'']
   \<and> snd (logged_lines (\<lambda>_. ascii ''{}'') Map.empty Map.empty
     \<lparr>req = \<lparr>ip = ascii ''10.0.0.7'', url_path = ascii ''/index.html'', arrival = 1000\<rparr>,
      http_method = ascii ''GET'', body_accepted = True, entered = 1000,
      json_calls = [], finish = Some (200, 1005)\<rparr>) = []
   \<and> snd (logged_lines (\<lambda>_. ascii ''{}'') Map.empty Map.empty
     \<lparr>req = \<lparr>ip = ascii ''10.0.0.7'', url_path = ascii ''/api/health'', arrival = 1000\<rparr>,
      http_method = ascii ''GET'', body_accepted = True, entered = 1000,
      json_calls = [], finish = None\<rparr>) = []"
proof -
  have pass: "\<And>r. snd (limit_stage Map.empty Map.empty r) = Pass"
    by (simp add: limit_stage_def production_middleware_def getenv_def)
  from pass request_logger_lines [of Map.empty Map.empty
      "\<lparr>req = \<lparr>ip = ascii ''10.0.0.7'', url_path = ascii ''/api/health'', arrival = 1000\<rparr>,
        http_method = ascii ''GET'', body_accepted = True, entered = 1000,
        json_calls = [JObject []], finish = Some (200, 1005)\<rparr>" 200 1005 "\<lambda>_. ascii ''{}''"]
  have a: "snd (logged_lines (\<lambda>_. ascii ''{}'') Map.empty Map.empty
     \<lparr>req = \<lparr>ip = ascii ''10.0.0.7'', url_path = ascii ''/api/health'', arrival = 1000\<rparr>,
      http_method = ascii ''GET'', body_accepted = True, entered = 1000,
      json_calls = [JObject []], finish = Some (200, 1005)\<rparr>)
     = [ascii ''GET /api/health 200 in 5ms :: {}'']"
    by (simp add: base_line_def truncate_line_def startsWith_def show_int_def show_nat.simps
        ascii_def)
  from pass request_logger_lines [of Map.empty Map.empty
      "\<lparr>req = \<lparr>ip = ascii ''10.0.0.7'', url_path = ascii ''/index.html'', arrival = 1000\<rparr>,
        http_method = ascii ''GET'', body_accepted = True, entered = 1000,
        json_calls = [], finish = Some (200, 1005)\<rparr>" 200 1005 "\<lambda>_. ascii ''{}''"]
  have b: "snd (logged_lines (\<lambda>_. ascii ''{}'') Map.empty Map.empty
     \<lparr>req = \<lparr>ip = ascii ''10.0.0.7'', url_path = ascii ''/index.html'', arrival = 1000\<rparr>,
      http_method = ascii ''GET'', body_accepted = True, entered = 1000,
      json_calls = [], finish = Some (200, 1005)\<rparr>) = []"
    by (simp add: startsWith_def ascii_def)
  from request_logger_lines [of Map.empty Map.empty
      "\<lparr>req = \<lparr>ip = ascii ''10.0.0.7'', url_path = ascii ''/api/health'', arrival = 1000\<rparr>,
        http_method = ascii ''GET'', body_accepted = True, entered = 1000,
        json_calls = [], finish = None\<rparr>" _ _ "\<lambda>_. ascii ''{}''"]
  have c: "snd (logged_lines (\<lambda>_. ascii ''{}'') Map.empty Map.empty
     \<lparr>req = \<lparr>ip = ascii ''10.0.0.7'', url_path = ascii ''/api/health'', arrival = 1000\<rparr>,
      http_method = ascii ''GET'', body_accepted = True, entered = 1000,
      json_calls = [], finish = None\<rparr>) = []"
    by simp
  from a b c show ?thesis by blast
qed

text \<open>
  C5 as stated fails for requests under /api that never enter the logger. With NODE_ENV
  set to "production" and 100 requests of the client already counted in the open window,
  a request for /api/health is rejected by the limiter and no line is emitted; and a
  request for /api/items whose JSON body the parser refuses emits no line either.
\<close>

theorem request_logger_counterexample:
  "startsWith (ascii ''/api/health'') (ascii ''/api'')
   \<and> limit_stage [''NODE_ENV'' \<mapsto> ascii ''production'']
        [ascii ''10.0.0.7'' \<mapsto> (100, 900000)]
        \<lparr>ip = ascii ''10.0.0.7'', url_path = ascii ''/api/health'', arrival = 5000\<rparr>
     = ([ascii ''10.0.0.7'' \<mapsto> (101, 900000)],
        Rejected (ascii ''Too many requests from this IP, please try again later.''))
   \<and> snd (logged_lines (\<lambda>_. ascii ''{}'') [''NODE_ENV'' \<mapsto> ascii ''production'']
        [ascii ''10.0.0.7'' \<mapsto> (100, 900000)]
        \<lparr>req = \<lparr>ip = ascii ''10.0.0.7'', url_path = ascii ''/api/health'', arrival = 5000\<rparr>,
         http_method = ascii ''GET'', body_accepted = True, entered = 5000,
         json_calls = [], finish = Some (429, 5001)\<rparr>) = []
   \<and> startsWith (ascii ''/api/items'') (ascii ''/api'')
   \<and> snd (logged_lines (\<lambda>_. ascii ''{}'') Map.empty Map.empty
        \<lparr>req = \<lparr>ip = ascii ''10.0.0.7'', url_path = ascii ''/api/items'', arrival = 5000\<rparr>,
         http_method = ascii ''POST'', body_accepted = False, entered = 5000,
         json_calls = [JObject []], finish = Some (400, 5001)\<rparr>) = []"
proof -
  have m: "mounted_at (ascii ''/api'') (ascii ''/api/health'')"
    by (simp add: mounted_at_def startsWith_def lower_def ascii_def)
  have l: "limit_stage [''NODE_ENV'' \<mapsto> ascii ''production'']
        [ascii ''10.0.0.7'' \<mapsto> (100, 900000)]
        \<lparr>ip = ascii ''10.0.0.7'', url_path = ascii ''/api/health'', arrival = 5000\<rparr>
     = ([ascii ''10.0.0.7'' \<mapsto> (101, 900000)],
        Rejected (ascii ''Too many requests from this IP, please try again later.''))"
    using m by (simp add: limit_stage_def production_middleware_def getenv_def rateLimit_def
        limiter_def)
  have "snd (limit_stage Map.empty Map.empty
        \<lparr>ip = ascii ''10.0.0.7'', url_path = ascii ''/api/items'', arrival = 5000\<rparr>) = Pass"
    by (simp add: limit_stage_def production_middleware_def getenv_def)
  then have "snd (logged_lines (\<lambda>_. ascii ''{}'') Map.empty Map.empty
        \<lparr>req = \<lparr>ip = ascii ''10.0.0.7'', url_path = ascii ''/api/items'', arrival = 5000\<rparr>,
         http_method = ascii ''POST'', body_accepted = False, entered = 5000,
         json_calls = [JObject []], finish = Some (400, 5001)\<rparr>) = []"
    by (cases "limit_stage Map.empty Map.empty
        \<lparr>ip = ascii ''10.0.0.7'', url_path = ascii ''/api/items'', arrival = 5000\<rparr>")
      (simp add: logged_lines_def)
  then show ?thesis
    using l by (simp add: logged_lines_def startsWith_def ascii_def)
qed

section \<open>Properties of the mode selection\<close>

text \<open>
  C2, as the code has it: \<open>isProduction\<close> holds exactly when NODE_ENV is "production",
  or the variable PORT is the text "5000" or "8080", or REPL_ID is not set or is the empty
  string. The test reads the variable, not the port that is bound: with PORT not set the
  server binds the default "5000" (line 171) and that selects nothing. With no variable
  set at all \<open>isProduction\<close> holds; and the development pipeline is tried, and so
  installed, only when \<open>isProduction\<close> is false and \<open>app.get("env")\<close> is
  "development".
\<close>

theorem mode_selection:
  "isProduction env =
     (env ''NODE_ENV'' = Some (ascii ''production'')
      \<or> env ''PORT'' = Some (ascii ''5000'')
      \<or> env ''PORT'' = Some (ascii ''8080'')
      \<or> env ''REPL_ID'' = None \<or> env ''REPL_ID'' = Some [])
   \<and> (env ''PORT'' = None \<longrightarrow> port_source env = ascii ''5000'')
   \<and> isProduction Map.empty
   \<and> (adapter (startup env w) = Some ViteDev
          \<or> Log (ascii ''Development mode detected, attempting to setup Vite'')
              \<in> set (console (startup env w))
        \<longrightarrow> \<not> isProduction env \<and> app_env w = ascii ''development'')"
proof -
  have "isProduction env =
     (env ''NODE_ENV'' = Some (ascii ''production'')
      \<or> env ''PORT'' = Some (ascii ''5000'')
      \<or> env ''PORT'' = Some (ascii ''8080'')
      \<or> env ''REPL_ID'' = None \<or> env ''REPL_ID'' = Some [])"
    by (auto simp: isProduction_def getenv_def split: option.splits)
  moreover have "env ''PORT'' = None \<longrightarrow> port_source env = ascii ''5000''"
    by (simp add: port_source_def getenv_def js_or_def)
  moreover have "isProduction Map.empty"
    by (simp add: isProduction_def getenv_def)
  moreover have "adapter (startup env w) = Some ViteDev
          \<or> Log (ascii ''Development mode detected, attempting to setup Vite'')
              \<in> set (console (startup env w))
        \<longrightarrow> \<not> isProduction env \<and> app_env w = ascii ''development''"
  proof (cases "\<not> isProduction env \<and> app_env w = ascii ''development''")
    case True
    then show ?thesis by blast
  next
    case False
    then have "content_delivery env w p =
        serveStatic (log (ascii ''Production mode detected, serving static files'') p)" for p
      by (auto simp: content_delivery_def)
    then show ?thesis
      by (simp add: startup_def Let_def serveStatic_def log_def initial_def ascii_def
          split: option.splits)
  qed
  ultimately show ?thesis by blast
qed

theorem mode_selection_witness:
  "adapter (startup [''REPL_ID'' \<mapsto> ascii ''abc'']
      \<lparr>db_init_error = None, app_env = ascii ''development'', vite_setup = SetupOk,
       port_text = (\<lambda>s. s)\<rparr>) = Some ViteDev
   \<and> \<not> isProduction [''REPL_ID'' \<mapsto> ascii ''abc'']
   \<and> [''REPL_ID'' \<mapsto> ascii ''abc''] ''PORT'' = None
   \<and> port_source [''REPL_ID'' \<mapsto> ascii ''abc''] = ascii ''5000''
   \<and> isProduction [''REPL_ID'' \<mapsto> ascii ''abc'', ''PORT'' \<mapsto> ascii ''8080'']"
  using mode_selection [of "[''REPL_ID'' \<mapsto> ascii ''abc'']"
      "\<lparr>db_init_error = None, app_env = ascii ''development'', vite_setup = SetupOk,
        port_text = (\<lambda>s. s)\<rparr>"]
    mode_selection [of "[''REPL_ID'' \<mapsto> ascii ''abc'', ''PORT'' \<mapsto> ascii ''8080'']"]
  by (simp add: startup_def content_delivery_def isProduction_def getenv_def log_def ascii_def)

text \<open>
  C2 as stated fails in two ways. With REPL_ID set to "abc" and nothing else, the port
  that is bound is the default 5000, a production port, and the mode is not Production.
  With REPL_ID set to the empty string and PORT set to "3000", the production flag is not
  set, the bound port is not a production port, the identifier is present in the
  environment, and the mode is Production.
\<close>

theorem mode_selection_counterexample:
  "\<not> isProduction [''REPL_ID'' \<mapsto> ascii ''abc'']
   \<and> port_source [''REPL_ID'' \<mapsto> ascii ''abc''] = ascii ''5000''
   \<and> isProduction [''REPL_ID'' \<mapsto> [], ''PORT'' \<mapsto> ascii ''3000'']
   \<and> [''REPL_ID'' \<mapsto> [], ''PORT'' \<mapsto> ascii ''3000''] ''NODE_ENV'' = None
   \<and> port_source [''REPL_ID'' \<mapsto> [], ''PORT'' \<mapsto> ascii ''3000''] = ascii ''3000''
   \<and> [''REPL_ID'' \<mapsto> [], ''PORT'' \<mapsto> ascii ''3000''] ''REPL_ID'' = Some []"
  by (simp add: isProduction_def port_source_def getenv_def js_or_def ascii_def)

text \<open>
  C10, as the code has it: when REPL_ID is set to a non-empty string, NODE_ENV is not set
  and PORT is neither "5000" nor "8080", and \<open>app.get("env")\<close> is Express's default, that
  default is "development", the mode is not Production, the start takes the development
  branch, and the development pipeline is installed when its setup succeeds.
\<close>

theorem development_by_default:
  assumes "env ''REPL_ID'' = Some v" and "v \<noteq> []"
    and "env ''NODE_ENV'' = None"
    and "env ''PORT'' \<noteq> Some (ascii ''5000'')" and "env ''PORT'' \<noteq> Some (ascii ''8080'')"
    and "app_env w = express_env env"
  shows "express_env env = ascii ''development''
    \<and> \<not> isProduction env
    \<and> Log (ascii ''Development mode detected, attempting to setup Vite'')
        \<in> set (console (startup env w))
    \<and> (vite_setup w = SetupOk \<longrightarrow> adapter (startup env w) = Some ViteDev)"
proof -
  have e: "express_env env = ascii ''development''"
    using assms(3) by (simp add: express_env_def getenv_def js_or_def)
  have np: "\<not> isProduction env"
    using assms(1-5) by (auto simp: isProduction_def getenv_def split: option.splits)
  have dev: "\<not> isProduction env \<and> app_env w = ascii ''development''"
    using e np assms(6) by simp
  have "Log (ascii ''Development mode detected, attempting to setup Vite'')
        \<in> set (console (startup env w))"
    using dev
    by (cases "vite_setup w")
      (simp_all add: startup_def content_delivery_def Let_def log_def serveStatic_def
        console_error_def split: option.splits)
  moreover have "vite_setup w = SetupOk \<longrightarrow> adapter (startup env w) = Some ViteDev"
    using dev by (simp add: startup_def content_delivery_def Let_def log_def)
  ultimately show ?thesis using e np by blast
qed

theorem development_by_default_witness:
  "[''REPL_ID'' \<mapsto> ascii ''abc''] ''REPL_ID'' = Some (ascii ''abc'')
   \<and> ascii ''abc'' \<noteq> []
   \<and> express_env [''REPL_ID'' \<mapsto> ascii ''abc''] = ascii ''development''
   \<and> adapter (startup [''REPL_ID'' \<mapsto> ascii ''abc'']
        \<lparr>db_init_error = None, app_env = express_env [''REPL_ID'' \<mapsto> ascii ''abc''],
         vite_setup = SetupOk, port_text = (\<lambda>s. s)\<rparr>) = Some ViteDev"
  using development_by_default [of "[''REPL_ID'' \<mapsto> ascii ''abc'']" "ascii ''abc''"
      "\<lparr>db_init_error = None, app_env = express_env [''REPL_ID'' \<mapsto> ascii ''abc''],
        vite_setup = SetupOk, port_text = (\<lambda>s. s)\<rparr>"]
  by (simp add: ascii_def express_env_def getenv_def js_or_def)

text \<open>
  C10 as stated fails when REPL_ID is present with the empty string as its value: NODE_ENV
  and PORT are not set, Express's environment is "development", and the start installs
  the static file server.
\<close>

theorem development_by_default_counterexample:
  "[''REPL_ID'' \<mapsto> ([] :: jsstring)] ''REPL_ID'' = Some []
   \<and> express_env [''REPL_ID'' \<mapsto> []] = ascii ''development''
   \<and> adapter (startup [''REPL_ID'' \<mapsto> []]
        \<lparr>db_init_error = None, app_env = express_env [''REPL_ID'' \<mapsto> []],
         vite_setup = SetupOk, port_text = (\<lambda>s. s)\<rparr>) = Some StaticFiles"
  by (simp add: startup_def content_delivery_def isProduction_def getenv_def express_env_def
      js_or_def serveStatic_def log_def)

section \<open>Properties of the error middleware\<close>




section \<open>Properties of the rate limiting stage\<close>

lemma serve_all_unlimited:
  "\<not> production_middleware env \<Longrightarrow> serve_all env store rs = replicate (length rs) Pass"
  by (induction rs arbitrary: store) (simp_all add: limit_stage_def)

lemma production_middleware_isProduction:
  "production_middleware env \<Longrightarrow> isProduction env"
  by (simp add: production_middleware_def isProduction_def)

lemma limit_stage_counted:
  assumes "production_middleware env" and "store c = Some (k, r)"
    and "ip q = c" and "mounted_at (ascii ''/api'') (url_path q)" and "arrival q < r"
  shows "limit_stage env store q =
     (store(c \<mapsto> (Suc k, r)),
      if 100 < Suc k then Rejected (limit_message limiter) else Pass)"
  using assms by (simp add: limit_stage_def rateLimit_def limiter_def)

lemma serve_all_in_window:
  assumes "production_middleware env" and "store c = Some (k, r)"
    and "list_all (\<lambda>q. ip q = c \<and> mounted_at (ascii ''/api'') (url_path q) \<and> arrival q < r) rs"
  shows "serve_all env store rs =
     replicate (min (length rs) (100 - k)) Pass
     @ replicate (length rs - (100 - k)) (Rejected (limit_message limiter))"
  using assms
proof (induction rs arbitrary: store k)
  case Nil
  then show ?case by simp
next
  case (Cons q qs)
  let ?store = "store(c \<mapsto> (Suc k, r))"
  have st: "limit_stage env store q =
      (?store, if 100 < Suc k then Rejected (limit_message limiter) else Pass)"
    using Cons.prems by (intro limit_stage_counted) simp_all
  have rest: "serve_all env ?store qs =
      replicate (min (length qs) (100 - Suc k)) Pass
      @ replicate (length qs - (100 - Suc k)) (Rejected (limit_message limiter))"
    using Cons.prems by (intro Cons.IH) simp_all
  show ?case
  proof (cases "k < 100")
    case True
    then have "min (length (q # qs)) (100 - k) = Suc (min (length qs) (100 - Suc k))"
      and "length (q # qs) - (100 - k) = length qs - (100 - Suc k)"
      by simp_all
    with True st rest show ?thesis by simp
  next
    case False
    then have "100 - k = 0" and "100 - Suc k = 0" by simp_all
    with False st rest show ?thesis by simp
  qed
qed

lemma serve_all_fresh:
  assumes "production_middleware env" and "store (ip q) = None"
    and "mounted_at (ascii ''/api'') (url_path q)"
    and "list_all (\<lambda>q'. ip q' = ip q \<and> mounted_at (ascii ''/api'') (url_path q')
            \<and> arrival q' < arrival q + windowMs limiter) qs"
  shows "serve_all env store (q # qs) =
     replicate (min (length (q # qs)) 100) Pass
     @ replicate (length (q # qs) - 100) (Rejected (limit_message limiter))"
proof -
  let ?store = "store(ip q \<mapsto> (1, arrival q + windowMs limiter))"
  have first: "limit_stage env store q = (?store, Pass)"
    using assms by (simp add: limit_stage_def rateLimit_def limiter_def)
  have "serve_all env ?store qs =
      replicate (min (length qs) (100 - 1)) Pass
      @ replicate (length qs - (100 - 1)) (Rejected (limit_message limiter))"
    using assms by (intro serve_all_in_window [where c = "ip q" and r = "arrival q + windowMs limiter"]) simp_all
  with first show ?thesis by simp
qed

text \<open>
  C3, as the code has it: the limiter is installed under the test of line 13, that
  NODE_ENV is "production". With that flag set, from a client that has no open window, a
  first request on a path under /api opens a window of 15 minutes, and of the requests of
  that client under /api inside the window the first 100 are passed on and every later one
  is rejected with the configured message and not passed on. Without the flag every
  request is passed on; the flag implies the Production mode of the mode selection, so
  outside Production nothing is limited.
\<close>

theorem rate_limit_under_production_flag:
  "(production_middleware env \<longrightarrow> store (ip q) = None
      \<longrightarrow> mounted_at (ascii ''/api'') (url_path q)
      \<longrightarrow> list_all (\<lambda>q'. ip q' = ip q \<and> mounted_at (ascii ''/api'') (url_path q')
              \<and> arrival q' < arrival q + windowMs limiter) qs
      \<longrightarrow> serve_all env store (q # qs) =
            replicate (min (length (q # qs)) (max_hits limiter)) Pass
            @ replicate (length (q # qs) - max_hits limiter) (Rejected (limit_message limiter)))
   \<and> (\<not> production_middleware env \<longrightarrow> serve_all env store rs = replicate (length rs) Pass)
   \<and> (production_middleware env \<longrightarrow> isProduction env)
   \<and> windowMs limiter = 15 * 60 * 1000 \<and> max_hits limiter = 100
   \<and> limit_message limiter = ascii ''Too many requests from this IP, please try again later.''"
proof -
  have m: "max_hits limiter = 100" by (simp add: limiter_def)
  have "production_middleware env \<longrightarrow> store (ip q) = None
      \<longrightarrow> mounted_at (ascii ''/api'') (url_path q)
      \<longrightarrow> list_all (\<lambda>q'. ip q' = ip q \<and> mounted_at (ascii ''/api'') (url_path q')
              \<and> arrival q' < arrival q + windowMs limiter) qs
      \<longrightarrow> serve_all env store (q # qs) =
            replicate (min (length (q # qs)) (max_hits limiter)) Pass
            @ replicate (length (q # qs) - max_hits limiter) (Rejected (limit_message limiter))"
    unfolding m using serve_all_fresh [of env store q qs] by blast
  moreover have "\<not> production_middleware env \<longrightarrow>
      serve_all env store rs = replicate (length rs) Pass"
    using serve_all_unlimited by blast
  moreover have "production_middleware env \<longrightarrow> isProduction env"
    using production_middleware_isProduction by blast
  moreover have "windowMs limiter = 15 * 60 * 1000"
    and "limit_message limiter = ascii ''Too many requests from this IP, please try again later.''"
    by (simp_all add: limiter_def)
  ultimately show ?thesis using m by blast
qed

lemma mounted_health: "mounted_at (ascii ''/api'') (ascii ''/api/health'')"
  by (simp add: mounted_at_def startsWith_def lower_def ascii_def)

theorem rate_limit_under_production_flag_witness:
  "production_middleware [''NODE_ENV'' \<mapsto> ascii ''production'']
   \<and> serve_all [''NODE_ENV'' \<mapsto> ascii ''production''] Map.empty
        (\<lparr>ip = ascii ''10.0.0.7'', url_path = ascii ''/api/health'', arrival = 0\<rparr>
         # map (\<lambda>i. \<lparr>ip = ascii ''10.0.0.7'', url_path = ascii ''/api/health'',
                      arrival = 1000 * int i\<rparr>) [1..<101]) ! 99 = Pass
   \<and> serve_all [''NODE_ENV'' \<mapsto> ascii ''production''] Map.empty
        (\<lparr>ip = ascii ''10.0.0.7'', url_path = ascii ''/api/health'', arrival = 0\<rparr>
         # map (\<lambda>i. \<lparr>ip = ascii ''10.0.0.7'', url_path = ascii ''/api/health'',
                      arrival = 1000 * int i\<rparr>) [1..<101]) ! 100
       = Rejected (ascii ''Too many requests from this IP, please try again later.'')
   \<and> \<not> production_middleware Map.empty
   \<and> serve_all Map.empty Map.empty
        [\<lparr>ip = ascii ''10.0.0.7'', url_path = ascii ''/api/health'', arrival = 0\<rparr>] = [Pass]"
proof -
  let ?env = "[''NODE_ENV'' \<mapsto> ascii ''production'']"
  let ?q = "\<lparr>ip = ascii ''10.0.0.7'', url_path = ascii ''/api/health'', arrival = 0\<rparr>"
  let ?qs = "map (\<lambda>i. \<lparr>ip = ascii ''10.0.0.7'', url_path = ascii ''/api/health'',
                      arrival = 1000 * int i\<rparr>) [1..<101]"
  have flag: "production_middleware ?env"
    by (simp add: production_middleware_def getenv_def)
  have win: "list_all (\<lambda>q'. ip q' = ip ?q \<and> mounted_at (ascii ''/api'') (url_path q')
              \<and> arrival q' < arrival ?q + windowMs limiter) ?qs"
    by (simp add: list_all_iff mounted_health limiter_def del: upt_Suc)
  have off: "\<not> production_middleware Map.empty"
    by (simp add: production_middleware_def getenv_def)
  from rate_limit_under_production_flag [of ?env Map.empty ?q ?qs] flag win
  have all: "serve_all ?env Map.empty (?q # ?qs) =
      replicate 100 Pass
      @ [Rejected (ascii ''Too many requests from this IP, please try again later.'')]"
    by (simp add: mounted_health del: upt_Suc)
  have "(replicate 100 Pass @ [Rejected (ascii ''Too many requests from this IP, please try again later.'')]) ! 99 = Pass"
    and "(replicate 100 Pass @ [Rejected (ascii ''Too many requests from this IP, please try again later.'')]) ! 100
       = Rejected (ascii ''Too many requests from this IP, please try again later.'')"
    by (simp_all add: nth_append)
  with all flag off rate_limit_under_production_flag [of Map.empty Map.empty _ _ "[?q]"]
  show ?thesis by simp
qed

text \<open>
  C3 as stated fails in a Production mode that is not chosen through NODE_ENV: with only
  PORT set to "5000" the mode selection gives Production, no limiter is installed, and the
  101st request of one client within a window is passed on like the others.
\<close>

theorem rate_limit_counterexample:
  "isProduction [''PORT'' \<mapsto> ascii ''5000'']
   \<and> serve_all [''PORT'' \<mapsto> ascii ''5000''] Map.empty
        (map (\<lambda>i. \<lparr>ip = ascii ''10.0.0.7'', url_path = ascii ''/api/health'',
                      arrival = 1000 * int i\<rparr>) [0..<101]) ! 100 = Pass"
  by (simp add: isProduction_def getenv_def serve_all_unlimited production_middleware_def
      del: upt_Suc)

section \<open>Properties of startup and shutdown\<close>

lemma step_exited: "exit_status p = Some c \<Longrightarrow> step p te = p"
  by (simp add: step_def)

lemma run_exited: "exit_status p = Some c \<Longrightarrow> run p tes = p"
  by (induction tes) (simp_all add: step_exited)

lemma run_append: "run p (xs @ ys) = run (run p xs) ys"
  by (induction xs arbitrary: p) simp_all

lemma not_due: "list_all (\<lambda>d. now < d) (timers p) \<Longrightarrow> \<not> timer_due p now"
  by (auto simp: timer_due_def list_all_iff list_ex_iff)

lemma step_signal:
  assumes "exit_status p = None" and "handlers_installed p" and "\<not> timer_due p now"
  shows "step p (now, Signal s) =
     p\<lparr>console := console p
          @ [Log (ascii ''Received '' @ signal_name s @ ascii '', shutting down gracefully...'')],
       accepting := False,
       close_callbacks := Suc (close_callbacks p),
       timers := timers p @ [now + 10000]\<rparr>"
  using assms by (simp add: step_def gracefulShutdown_def log_def Let_def)

lemma run_signals:
  assumes "exit_status p = None" and "handlers_installed p"
    and "list_all (\<lambda>d. t0 + 10000 \<le> d) (timers p)"
    and "list_all (\<lambda>ts. t0 \<le> fst ts \<and> fst ts < t0 + 10000) sigs"
  shows "timers (run p (map (\<lambda>ts. (fst ts, Signal (snd ts))) sigs))
           = timers p @ map (\<lambda>ts. fst ts + 10000) sigs
       \<and> console (run p (map (\<lambda>ts. (fst ts, Signal (snd ts))) sigs))
           = console p @ map (\<lambda>ts. Log (ascii ''Received '' @ signal_name (snd ts)
                 @ ascii '', shutting down gracefully...'')) sigs
       \<and> close_callbacks (run p (map (\<lambda>ts. (fst ts, Signal (snd ts))) sigs))
           = close_callbacks p + length sigs
       \<and> exit_status (run p (map (\<lambda>ts. (fst ts, Signal (snd ts))) sigs)) = None"
  using assms
proof (induction sigs arbitrary: p)
  case Nil
  then show ?case by simp
next
  case (Cons ts sigs)
  let ?p = "step p (fst ts, Signal (snd ts))"
  have "list_all (\<lambda>d. fst ts < d) (timers p)"
    using Cons.prems by (auto simp: list_all_iff)
  then have nd: "\<not> timer_due p (fst ts)" by (rule not_due)
  note st = step_signal [OF Cons.prems(1,2) nd, of "snd ts"]
  have "exit_status ?p = None" using Cons.prems(1) by (simp add: st)
  moreover have "handlers_installed ?p" using Cons.prems(2) by (simp add: st)
  moreover have "list_all (\<lambda>d. t0 + 10000 \<le> d) (timers ?p)"
    using Cons.prems by (simp add: st)
  moreover have "list_all (\<lambda>ts. t0 \<le> fst ts \<and> fst ts < t0 + 10000) sigs"
    using Cons.prems by simp
  ultimately have IH: "timers (run ?p (map (\<lambda>ts. (fst ts, Signal (snd ts))) sigs))
           = timers ?p @ map (\<lambda>ts. fst ts + 10000) sigs
       \<and> console (run ?p (map (\<lambda>ts. (fst ts, Signal (snd ts))) sigs))
           = console ?p @ map (\<lambda>ts. Log (ascii ''Received '' @ signal_name (snd ts)
                 @ ascii '', shutting down gracefully...'')) sigs
       \<and> close_callbacks (run ?p (map (\<lambda>ts. (fst ts, Signal (snd ts))) sigs))
           = close_callbacks ?p + length sigs
       \<and> exit_status (run ?p (map (\<lambda>ts. (fst ts, Signal (snd ts))) sigs)) = None"
    by (rule Cons.IH)
  then show ?case by (simp add: st)
qed

lemma draining_step:
  assumes "draining t0 p" and "t0 \<le> t" and "t < t0 + 10000" and "benign e"
  shows "draining t0 (step p (t, e))"
proof -
  have "list_all (\<lambda>d. t < d) (timers p)"
    using assms by (auto simp: draining_def list_all_iff)
  then have nd: "\<not> timer_due p t" by (rule not_due)
  show ?thesis
    using assms nd
    by (cases e)
      (auto simp: draining_def step_def gracefulShutdown_def log_def Let_def
        split: option.splits)
qed

lemma draining_run:
  assumes "draining t0 p"
    and "list_all (\<lambda>te. t0 \<le> fst te \<and> fst te < t0 + 10000 \<and> benign (snd te)) tes"
  shows "draining t0 (run p tes)"
  using assms
proof (induction tes arbitrary: p)
  case Nil
  then show ?case by simp
next
  case (Cons te tes)
  then have "draining t0 (step p (fst te, snd te))"
    by (intro draining_step) simp_all
  with Cons show ?case by simp
qed

lemma draining_closed:
  assumes "draining t0 p" and "t < t0 + 10000"
  shows "exit_status (step p (t, ServerClosed)) = Some 0"
proof -
  have "list_all (\<lambda>d. t < d) (timers p)"
    using assms by (auto simp: draining_def list_all_iff)
  then have nd: "\<not> timer_due p t" by (rule not_due)
  show ?thesis
    using assms nd
    by (simp add: draining_def step_def server_closed_def process_exit_def log_def)
qed

lemma draining_expired:
  assumes "draining t0 p" and "t0 + 10000 \<le> t"
  shows "exit_status (step p (t, e)) = Some 1"
proof -
  have "timer_due p t"
    using assms by (auto simp: draining_def timer_due_def list_ex_iff)
  then show ?thesis
    using assms by (simp add: draining_def step_def forced_shutdown_def process_exit_def log_def)
qed

lemma draining_first_signal:
  assumes "exit_status p = None" and "handlers_installed p" and "timers p = []"
  shows "draining t0 (step p (t0, Signal s))"
proof -
  have "\<not> timer_due p t0" using assms by (simp add: timer_due_def)
  from step_signal [OF assms(1,2) this, of s] assms show ?thesis
    by (simp add: draining_def)
qed

text \<open>
  C1, as the code has it: nothing guards \<open>gracefulShutdown\<close>. In a process that has
  registered its signal handlers (the end of the start, lines 195 and 196), has not
  exited and has no timer armed, signals taken within ten seconds of one another each
  log "Received ...", register one more close callback and arm one more timer, ten
  seconds after the signal:
  after n signals n timers are armed and n callbacks wait. The process still ends with a
  single exit status: once it has exited, no later event changes it.
\<close>

theorem every_signal_arms_a_timer:
  assumes "handlers_installed p" and "exit_status p = None" and "timers p = []"
    and "list_all (\<lambda>ts. t0 \<le> fst ts \<and> fst ts < t0 + 10000) sigs"
  shows "timers (run p (map (\<lambda>ts. (fst ts, Signal (snd ts))) sigs))
           = map (\<lambda>ts. fst ts + 10000) sigs
       \<and> console (run p (map (\<lambda>ts. (fst ts, Signal (snd ts))) sigs))
           = console p @ map (\<lambda>ts. Log (ascii ''Received '' @ signal_name (snd ts)
                 @ ascii '', shutting down gracefully...'')) sigs
       \<and> close_callbacks (run p (map (\<lambda>ts. (fst ts, Signal (snd ts))) sigs))
           = close_callbacks p + length sigs
       \<and> exit_status (run p (map (\<lambda>ts. (fst ts, Signal (snd ts))) sigs)) = None
       \<and> (exit_status q = Some c \<longrightarrow> run q tes = q)"
  using run_signals [of p t0 sigs] run_exited [of q c tes] assms by simp

theorem every_signal_arms_a_timer_witness:
  "handlers_installed (startup [''NODE_ENV'' \<mapsto> ascii ''production'']
             \<lparr>db_init_error = None, app_env = ascii ''production'', vite_setup = SetupOk,
              port_text = (\<lambda>s. s)\<rparr>)
   \<and> timers (run (startup [''NODE_ENV'' \<mapsto> ascii ''production'']
             \<lparr>db_init_error = None, app_env = ascii ''production'', vite_setup = SetupOk,
              port_text = (\<lambda>s. s)\<rparr>)
        [(1000, Signal SIGTERM), (2000, Signal SIGINT), (3000, Signal SIGTERM)])
     = [11000, 12000, 13000]
   \<and> exit_status (run (startup [''NODE_ENV'' \<mapsto> ascii ''production'']
             \<lparr>db_init_error = None, app_env = ascii ''production'', vite_setup = SetupOk,
              port_text = (\<lambda>s. s)\<rparr>)
        [(1000, Signal SIGTERM), (2000, Signal SIGINT), (3000, Signal SIGTERM)]) = None
   \<and> run (process_exit 0 initial) [(5, Signal SIGTERM)] = process_exit 0 initial"
proof -
  let ?p = "startup [''NODE_ENV'' \<mapsto> ascii ''production'']
             \<lparr>db_init_error = None, app_env = ascii ''production'', vite_setup = SetupOk,
              port_text = (\<lambda>s. s)\<rparr>"
  have live: "exit_status ?p = None" and none: "timers ?p = []"
    and inst: "handlers_installed ?p"
    by (simp_all add: startup_def content_delivery_def isProduction_def getenv_def
        serveStatic_def log_def initial_def)
  have "exit_status (process_exit 0 initial) = Some 0"
    by (simp add: process_exit_def)
  with every_signal_arms_a_timer
      [of ?p 1000 "[(1000, SIGTERM), (2000, SIGINT), (3000, SIGTERM)]"
        "process_exit 0 initial" 0 "[(5, Signal SIGTERM)]"] live none inst
  show ?thesis by simp
qed

text \<open>
  C1 as stated fails on two signals in succession: after SIGTERM at 1000 ms the process is
  shutting down with one timer armed; a second SIGTERM at 2000 ms logs again, registers a
  second close callback and arms a second timer.
\<close>

theorem second_signal_counterexample:
  "lifecycle_of (run (startup [''NODE_ENV'' \<mapsto> ascii ''production'']
             \<lparr>db_init_error = None, app_env = ascii ''production'', vite_setup = SetupOk,
              port_text = (\<lambda>s. s)\<rparr>)
        [(0, Bound), (1000, Signal SIGTERM)]) = ShuttingDown
   \<and> timers (run (startup [''NODE_ENV'' \<mapsto> ascii ''production'']
             \<lparr>db_init_error = None, app_env = ascii ''production'', vite_setup = SetupOk,
              port_text = (\<lambda>s. s)\<rparr>)
        [(0, Bound), (1000, Signal SIGTERM)]) = [11000]
   \<and> timers (run (startup [''NODE_ENV'' \<mapsto> ascii ''production'']
             \<lparr>db_init_error = None, app_env = ascii ''production'', vite_setup = SetupOk,
              port_text = (\<lambda>s. s)\<rparr>)
        [(0, Bound), (1000, Signal SIGTERM), (2000, Signal SIGTERM)]) = [11000, 12000]
   \<and> close_callbacks (run (startup [''NODE_ENV'' \<mapsto> ascii ''production'']
             \<lparr>db_init_error = None, app_env = ascii ''production'', vite_setup = SetupOk,
              port_text = (\<lambda>s. s)\<rparr>)
        [(0, Bound), (1000, Signal SIGTERM), (2000, Signal SIGTERM)]) = 2"
  by (simp add: startup_def content_delivery_def isProduction_def getenv_def serveStatic_def
      log_def initial_def step_def timer_due_def gracefulShutdown_def lifecycle_of_def Let_def)

text \<open>
  C8: a process that has registered its signal handlers, has not exited and has no
  timer armed takes a signal at \<open>t0\<close>, which begins the shutdown.
  While only benign events follow within the next ten seconds it stays in ShuttingDown.
  If the server's close event comes before \<open>t0 + 10000\<close> the process exits with status
  0; at the first event at or after \<open>t0 + 10000\<close> the timer has expired and the process
  exits with status 1. Whichever comes first decides: an exited process is Stopped and
  no later event changes it.
\<close>

theorem shutdown_exit_status:
  assumes "handlers_installed p" and "exit_status p = None" and "timers p = []"
    and "list_all (\<lambda>te. t0 \<le> fst te \<and> fst te < t0 + 10000 \<and> benign (snd te)) tes"
  shows "lifecycle_of (run (step p (t0, Signal s)) tes) = ShuttingDown
    \<and> (t1 < t0 + 10000 \<longrightarrow>
         exit_status (run (step p (t0, Signal s)) (tes @ [(t1, ServerClosed)])) = Some 0)
    \<and> (t0 + 10000 \<le> t1 \<longrightarrow>
         exit_status (run (step p (t0, Signal s)) (tes @ [(t1, e)])) = Some 1)
    \<and> (exit_status q = Some c \<longrightarrow> lifecycle_of q = Stopped \<and> run q later = q)"
proof -
  let ?q = "run (step p (t0, Signal s)) tes"
  have "draining t0 (step p (t0, Signal s))"
    using assms(2,1,3) by (rule draining_first_signal)
  then have d: "draining t0 ?q"
    using assms(4) by (rule draining_run)
  then have "lifecycle_of ?q = ShuttingDown"
    by (simp add: draining_def lifecycle_of_def)
  moreover have "t1 < t0 + 10000 \<longrightarrow>
      exit_status (run (step p (t0, Signal s)) (tes @ [(t1, ServerClosed)])) = Some 0"
    using draining_closed [OF d] by (simp add: run_append)
  moreover have "t0 + 10000 \<le> t1 \<longrightarrow>
      exit_status (run (step p (t0, Signal s)) (tes @ [(t1, e)])) = Some 1"
    using draining_expired [OF d] by (simp add: run_append)
  moreover have "exit_status q = Some c \<longrightarrow> lifecycle_of q = Stopped \<and> run q later = q"
    using run_exited [of q c later] by (simp add: lifecycle_of_def)
  ultimately show ?thesis by blast
qed

theorem shutdown_exit_status_witness:
  "exit_status (run (step (startup [''NODE_ENV'' \<mapsto> ascii ''production'']
             \<lparr>db_init_error = None, app_env = ascii ''production'', vite_setup = SetupOk,
              port_text = (\<lambda>s. s)\<rparr>) (1000, Signal SIGTERM))
        ([(4000, Tick), (5000, Signal SIGINT)] @ [(9000, ServerClosed)])) = Some 0
   \<and> exit_status (run (step (startup [''NODE_ENV'' \<mapsto> ascii ''production'']
             \<lparr>db_init_error = None, app_env = ascii ''production'', vite_setup = SetupOk,
              port_text = (\<lambda>s. s)\<rparr>) (1000, Signal SIGTERM))
        ([(4000, Tick), (5000, Signal SIGINT)] @ [(11000, ServerClosed)])) = Some 1
   \<and> lifecycle_of (process_exit 1 initial) = Stopped"
proof -
  let ?p = "startup [''NODE_ENV'' \<mapsto> ascii ''production'']
             \<lparr>db_init_error = None, app_env = ascii ''production'', vite_setup = SetupOk,
              port_text = (\<lambda>s. s)\<rparr>"
  have live: "exit_status ?p = None" and none: "timers ?p = []"
    and inst: "handlers_installed ?p"
    by (simp_all add: startup_def content_delivery_def isProduction_def getenv_def
        serveStatic_def log_def initial_def)
  have ex: "exit_status (process_exit 1 initial) = Some 1"
    by (simp add: process_exit_def)
  from shutdown_exit_status
      [of ?p 1000 "[(4000, Tick), (5000, Signal SIGINT)]" SIGTERM 9000 ServerClosed
        "process_exit 1 initial" 1] live none inst ex
  have a: "exit_status (run (step ?p (1000, Signal SIGTERM))
        ([(4000, Tick), (5000, Signal SIGINT)] @ [(9000, ServerClosed)])) = Some 0"
    and c: "lifecycle_of (process_exit 1 initial) = Stopped"
    by simp_all
  from shutdown_exit_status
      [of ?p 1000 "[(4000, Tick), (5000, Signal SIGINT)]" SIGTERM 11000 ServerClosed] live none
      inst
  have b: "exit_status (run (step ?p (1000, Signal SIGTERM))
        ([(4000, Tick), (5000, Signal SIGINT)] @ [(11000, ServerClosed)])) = Some 1"
    by simp
  from a b c show ?thesis by blast
qed

text \<open>
  C7: when the mode selection and \<open>app.get("env")\<close> choose the development pipeline and
  its setup throws, the start logs the failure, writes the error to the console, installs
  the static file server and goes on to \<open>listen\<close> without exiting; once the socket is
  bound the process is Listening.
\<close>

theorem vite_failure_falls_back:
  assumes "\<not> isProduction env" and "app_env w = ascii ''development''"
    and "vite_setup w = SetupThrows error"
  shows "console (startup env w) =
       (case db_init_error w of
          Some _ \<Rightarrow> [Log (ascii ''Database initialization failed, continuing anyway'')]
        | None \<Rightarrow> [])
       @ [Log (ascii ''Development mode detected, attempting to setup Vite''),
          Log (ascii ''Failed to setup Vite development server, serving static files''),
          ConsoleError error]
    \<and> adapter (startup env w) = Some StaticFiles
    \<and> exit_status (startup env w) = None
    \<and> listen_port (startup env w) \<noteq> None
    \<and> lifecycle_of (step (startup env w) (now, Bound)) = Listening"
  using assms
  by (simp add: startup_def content_delivery_def Let_def serveStatic_def console_error_def
      log_def initial_def step_def timer_due_def lifecycle_of_def split: option.splits)

theorem vite_failure_falls_back_witness:
  "\<not> isProduction [''REPL_ID'' \<mapsto> ascii ''abc'']
   \<and> adapter (startup [''REPL_ID'' \<mapsto> ascii ''abc'']
        \<lparr>db_init_error = None, app_env = ascii ''development'',
         vite_setup = SetupThrows \<lparr>status = JUndefined, statusCode = JUndefined,
           message = JStr (ascii ''Cannot find package vite'')\<rparr>,
         port_text = (\<lambda>s. s)\<rparr>) = Some StaticFiles
   \<and> lifecycle_of (step (startup [''REPL_ID'' \<mapsto> ascii ''abc'']
        \<lparr>db_init_error = None, app_env = ascii ''development'',
         vite_setup = SetupThrows \<lparr>status = JUndefined, statusCode = JUndefined,
           message = JStr (ascii ''Cannot find package vite'')\<rparr>,
         port_text = (\<lambda>s. s)\<rparr>) (0, Bound)) = Listening"
proof -
  have np: "\<not> isProduction [''REPL_ID'' \<mapsto> ascii ''abc'']"
    by (simp add: isProduction_def getenv_def ascii_def)
  from vite_failure_falls_back
      [of "[''REPL_ID'' \<mapsto> ascii ''abc'']"
        "\<lparr>db_init_error = None, app_env = ascii ''development'',
          vite_setup = SetupThrows \<lparr>status = JUndefined, statusCode = JUndefined,
            message = JStr (ascii ''Cannot find package vite'')\<rparr>,
          port_text = (\<lambda>s. s)\<rparr>"
        "\<lparr>status = JUndefined, statusCode = JUndefined,
            message = JStr (ascii ''Cannot find package vite'')\<rparr>" 0] np
  show ?thesis by simp
qed

text \<open>
  C6, as the code has it: when the development pipeline is installed, an error it reports
  through its logger is written out and the process then exits with status 1; an error
  thrown while rendering a page is given to the stack-trace fixup and then passed on to
  the next error handler, and nothing else is done with it.
\<close>

theorem pipeline_errors:
  "(adapter p = Some ViteDev \<longrightarrow> exit_status p = None \<longrightarrow> \<not> timer_due p now \<longrightarrow>
      step p (now, ViteError msg) =
        p\<lparr>console := console p @ [ViteLoggerError msg], exit_status := Some 1\<rparr>)
   \<and> catch_all (RenderThrows e) = [SsrFixStacktrace e, NextError e]"
  by (simp add: step_def customLogger_error_def process_exit_def catch_all_def)

theorem pipeline_errors_witness:
  "adapter (startup [''REPL_ID'' \<mapsto> ascii ''abc'']
      \<lparr>db_init_error = None, app_env = ascii ''development'', vite_setup = SetupOk,
       port_text = (\<lambda>s. s)\<rparr>) = Some ViteDev
   \<and> exit_status (step (startup [''REPL_ID'' \<mapsto> ascii ''abc'']
      \<lparr>db_init_error = None, app_env = ascii ''development'', vite_setup = SetupOk,
       port_text = (\<lambda>s. s)\<rparr>) (7, ViteError (ascii ''Pre-transform error''))) = Some 1"
proof -
  let ?p = "startup [''REPL_ID'' \<mapsto> ascii ''abc'']
      \<lparr>db_init_error = None, app_env = ascii ''development'', vite_setup = SetupOk,
       port_text = (\<lambda>s. s)\<rparr>"
  have a: "adapter ?p = Some ViteDev" and b: "exit_status ?p = None"
    and c: "\<not> timer_due ?p 7"
    by (simp_all add: startup_def content_delivery_def isProduction_def getenv_def log_def
        initial_def timer_due_def ascii_def)
  from pipeline_errors [of ?p 7 "ascii ''Pre-transform error''"] a b c
  show ?thesis by simp
qed

text \<open>
  C6 as stated fails: in a running development process an error reported by the
  transform pipeline ends the process with status 1, so no response is made from it.
\<close>

theorem pipeline_errors_counterexample:
  "lifecycle_of (run (startup [''REPL_ID'' \<mapsto> ascii ''abc'']
      \<lparr>db_init_error = None, app_env = ascii ''development'', vite_setup = SetupOk,
       port_text = (\<lambda>s. s)\<rparr>) [(0, Bound)]) = Listening
   \<and> exit_status (run (startup [''REPL_ID'' \<mapsto> ascii ''abc'']
      \<lparr>db_init_error = None, app_env = ascii ''development'', vite_setup = SetupOk,
       port_text = (\<lambda>s. s)\<rparr>) [(0, Bound), (7, ViteError (ascii ''Pre-transform error''))])
     = Some 1
   \<and> lifecycle_of (run (startup [''REPL_ID'' \<mapsto> ascii ''abc'']
      \<lparr>db_init_error = None, app_env = ascii ''development'', vite_setup = SetupOk,
       port_text = (\<lambda>s. s)\<rparr>) [(0, Bound), (7, ViteError (ascii ''Pre-transform error''))])
     = Stopped"
  by (simp add: startup_def content_delivery_def isProduction_def getenv_def log_def
      initial_def step_def timer_due_def customLogger_error_def process_exit_def
      lifecycle_of_def ascii_def)

end
